theory Spec2Isabelle
  imports Complex_Main "HOL-Library.Log_Nat"
begin

section \<open>Numbers of the source language\<close>

text \<open>
  Every amount and balance field in \<^verbatim>\<open>src/App.jsx\<close> is a JavaScript number. The
  model keeps the special values of that type (\<open>NaN\<close>, \<open>Infinity\<close>, \<open>-Infinity\<close>)
  and takes a finite value as a real. The operators of this section are exact on
  finite values; the rounding and the overflow of doubles come with the arithmetic of
  doubles further down. The sign of zero is not modelled.
\<close>

datatype jsnum = NaN | NegInf | Fin real | PosInf

text \<open>\<^verbatim>\<open>a < b\<close>: false as soon as one side is \<open>NaN\<close>.\<close>

fun js_less :: "jsnum \<Rightarrow> jsnum \<Rightarrow> bool" where
  "js_less NaN _ = False"
| "js_less _ NaN = False"
| "js_less NegInf NegInf = False"
| "js_less NegInf _ = True"
| "js_less (Fin x) NegInf = False"
| "js_less (Fin x) (Fin y) = (x < y)"
| "js_less (Fin x) PosInf = True"
| "js_less PosInf _ = False"

text \<open>\<^verbatim>\<open>a <= b\<close>.\<close>

fun js_le :: "jsnum \<Rightarrow> jsnum \<Rightarrow> bool" where
  "js_le NaN _ = False"
| "js_le _ NaN = False"
| "js_le NegInf _ = True"
| "js_le (Fin x) NegInf = False"
| "js_le (Fin x) (Fin y) = (x \<le> y)"
| "js_le (Fin x) PosInf = True"
| "js_le PosInf PosInf = True"
| "js_le PosInf _ = False"

text \<open>\<^verbatim>\<open>isNaN(a)\<close> on a number.\<close>

fun isNaN :: "jsnum \<Rightarrow> bool" where
  "isNaN NaN = True"
| "isNaN _ = False"

text \<open>\<^verbatim>\<open>a + b\<close>: the two infinities of opposite sign add up to \<open>NaN\<close>.\<close>

fun js_add :: "jsnum \<Rightarrow> jsnum \<Rightarrow> jsnum" where
  "js_add NaN _ = NaN"
| "js_add _ NaN = NaN"
| "js_add PosInf NegInf = NaN"
| "js_add NegInf PosInf = NaN"
| "js_add PosInf _ = PosInf"
| "js_add _ PosInf = PosInf"
| "js_add NegInf _ = NegInf"
| "js_add _ NegInf = NegInf"
| "js_add (Fin x) (Fin y) = Fin (x + y)"

text \<open>\<^verbatim>\<open>a - b\<close>: \<open>Infinity - Infinity\<close> is \<open>NaN\<close>.\<close>

fun js_sub :: "jsnum \<Rightarrow> jsnum \<Rightarrow> jsnum" where
  "js_sub NaN _ = NaN"
| "js_sub _ NaN = NaN"
| "js_sub PosInf PosInf = NaN"
| "js_sub NegInf NegInf = NaN"
| "js_sub PosInf _ = PosInf"
| "js_sub _ NegInf = PosInf"
| "js_sub NegInf _ = NegInf"
| "js_sub _ PosInf = NegInf"
| "js_sub (Fin x) (Fin y) = Fin (x - y)"

text \<open>
  \<^verbatim>\<open>a / b\<close>. A zero divisor is the positive zero (the model has one zero): a non-zero
  finite dividend gives the infinity of its sign, \<open>0 / 0\<close> gives \<open>NaN\<close>.
\<close>

fun js_div :: "jsnum \<Rightarrow> jsnum \<Rightarrow> jsnum" where
  "js_div NaN _ = NaN"
| "js_div _ NaN = NaN"
| "js_div PosInf PosInf = NaN"
| "js_div PosInf NegInf = NaN"
| "js_div NegInf PosInf = NaN"
| "js_div NegInf NegInf = NaN"
| "js_div PosInf (Fin y) = (if 0 \<le> y then PosInf else NegInf)"
| "js_div NegInf (Fin y) = (if 0 \<le> y then NegInf else PosInf)"
| "js_div (Fin x) PosInf = Fin 0"
| "js_div (Fin x) NegInf = Fin 0"
| "js_div (Fin x) (Fin y) =
     (if y = 0 then (if x = 0 then NaN else if 0 < x then PosInf else NegInf)
      else Fin (x / y))"

section \<open>Constants and data of the dashboard\<close>

text \<open>\<^verbatim>\<open>const SIMULATED_COIN_PRICE = 68500.00;\<close> and \<^verbatim>\<open>const MIN_WITHDRAWAL_AMOUNT = 100;\<close>\<close>

definition SIMULATED_COIN_PRICE :: real where
  "SIMULATED_COIN_PRICE = 68500"

definition MIN_WITHDRAWAL_AMOUNT :: jsnum where
  "MIN_WITHDRAWAL_AMOUNT = Fin 100"

text \<open>The state variable \<^verbatim>\<open>userBalance\<close>: \<^verbatim>\<open>{ fiat: ..., coin: ... }\<close>.\<close>

record balance =
  fiat :: jsnum
  coin :: jsnum

text \<open>
  The texts shown to the user. A fixed text is kept as the string of the source; a
  template literal is a constructor holding the numbers it interpolates, before
  \<^verbatim>\<open>formatCurrency\<close> or \<^verbatim>\<open>formatCoin\<close> render them:
  \<^item> \<open>DepositSuccessful a f\<close>: "Deposit of a successful! Your new balance is f."
  \<^item> \<open>PurchaseSuccessful c\<close>: "Purchase of c BTC successful!"
  \<^item> \<open>SaleSuccessful a\<close>: "Sale successful. You received a."
  \<^item> \<open>WithdrawalFailed m c\<close>: "Withdrawal failed: Minimum withdrawal is m BTC. You
    currently have c BTC."
  \<^item> \<open>WithdrawalInitiated c\<close>: "Withdrawal of c BTC initiated! (Simulated)"
\<close>

datatype message =
    Text string
  | DepositSuccessful jsnum jsnum
  | PurchaseSuccessful jsnum
  | SaleSuccessful jsnum
  | WithdrawalFailed jsnum jsnum
  | WithdrawalInitiated jsnum

text \<open>
  What a trading handler does once its checks are over: it either leaves through
  \<^verbatim>\<open>return setMessage(...)\<close> or calls
  \<^verbatim>\<open>updateBalance(newFiat, newCoin, successMessage)\<close>.
\<close>

datatype action =
    SetMessage message
  | UpdateBalance jsnum jsnum message

text \<open>The rejection reasons of the specification, as the texts the handlers set.\<close>

definition InvalidAmount :: message where
  "InvalidAmount = Text ''Please enter a valid amount.''"

definition InsufficientFiat :: message where
  "InsufficientFiat = Text ''Error: Insufficient USD balance to complete the purchase.''"

definition InsufficientCoin :: message where
  "InsufficientCoin = Text ''Error: Insufficient BTC balance to complete the sale.''"

definition BelowMinimum :: "jsnum \<Rightarrow> message" where
  "BelowMinimum c = WithdrawalFailed MIN_WITHDRAWAL_AMOUNT c"

section \<open>The trading handlers\<close>

text \<open>
  Each handler reads the state variables \<^verbatim>\<open>userBalance\<close> and \<^verbatim>\<open>tradeAmount\<close>, here
  the arguments \<open>b\<close> and \<open>a\<close>. The source divides by the module constant
  \<^verbatim>\<open>SIMULATED_COIN_PRICE\<close>; the model takes the price as the argument \<open>price\<close>, which
  the session below always instantiates with that constant. The arithmetic of this
  section is exact; the same handlers in the arithmetic of doubles follow in the next
  section.
\<close>

definition handleSimulatedDeposit :: "balance \<Rightarrow> jsnum \<Rightarrow> action" where
  "handleSimulatedDeposit b a =
     (if js_le a (Fin 0) \<or> isNaN a then SetMessage InvalidAmount
      else
        let newFiat = js_add (fiat b) a
        in UpdateBalance newFiat (coin b) (DepositSuccessful a newFiat))"

definition handleBuy :: "real \<Rightarrow> balance \<Rightarrow> jsnum \<Rightarrow> action" where
  "handleBuy price b a =
     (if js_le a (Fin 0) \<or> isNaN a then SetMessage InvalidAmount
      else
        let costInFiat = a;
            coinsReceived = js_div costInFiat (Fin price)
        in if js_less (fiat b) costInFiat then SetMessage InsufficientFiat
           else
             let newFiat = js_sub (fiat b) costInFiat;
                 newCoin = js_add (coin b) coinsReceived
             in UpdateBalance newFiat newCoin (PurchaseSuccessful coinsReceived))"

definition handleSell :: "real \<Rightarrow> balance \<Rightarrow> jsnum \<Rightarrow> action" where
  "handleSell price b a =
     (if js_le a (Fin 0) \<or> isNaN a then SetMessage InvalidAmount
      else
        let coinsToSell = js_div a (Fin price)
        in if js_less (coin b) coinsToSell then SetMessage InsufficientCoin
           else
             let fiatReceived = a;
                 newFiat = js_add (fiat b) fiatReceived;
                 newCoin = js_sub (coin b) coinsToSell
             in UpdateBalance newFiat newCoin (SaleSuccessful fiatReceived))"

definition handleWithdraw :: "balance \<Rightarrow> action" where
  "handleWithdraw b =
     (if js_less (coin b) MIN_WITHDRAWAL_AMOUNT then SetMessage (BelowMinimum (coin b))
      else
        let withdrawalAmount = coin b;
            newCoin = Fin 0
        in UpdateBalance (fiat b) newCoin (WithdrawalInitiated withdrawalAmount))"

text \<open>
  The four kinds of intent, and the handler the modal's \<^verbatim>\<open>switch (type)\<close> attaches to
  each. The withdraw handler does not read the amount.
\<close>

datatype kind = Deposit | Buy | Sell | Withdraw

fun ledger_apply :: "real \<Rightarrow> kind \<Rightarrow> balance \<Rightarrow> jsnum \<Rightarrow> action" where
  "ledger_apply price Deposit b a = handleSimulatedDeposit b a"
| "ledger_apply price Buy b a = handleBuy price b a"
| "ledger_apply price Sell b a = handleSell price b a"
| "ledger_apply price Withdraw b a = handleWithdraw b"

section \<open>The arithmetic of doubles\<close>

text \<open>
  The numbers of the source are IEEE 754 doubles, and \<^verbatim>\<open>+\<close>, \<^verbatim>\<open>-\<close> and \<^verbatim>\<open>/\<close> give the
  double nearest to the exact result, a tie going to the even significand.
  \<open>round_half_even q\<close> is the integer nearest to \<open>q\<close>; \<open>exponent x\<close> is the binary
  exponent of \<open>x\<close>, the greatest \<open>e\<close> with \<open>2 ^ e \<le> \<bar>x\<bar>\<close>, and not below -1022, where
  the subnormal numbers start; \<open>round_double x\<close> rounds \<open>x\<close> to 53 significant bits at
  that exponent, and a result of magnitude \<open>2 ^ 1024\<close> or more overflows to the
  infinity of its sign.
\<close>

definition round_half_even :: "real \<Rightarrow> int" where
  "round_half_even q =
     (let n = \<lfloor>q\<rfloor>; d = q - of_int n
      in if d < 1 / 2 then n else if 1 / 2 < d then n + 1 else if even n then n else n + 1)"

definition exponent :: "real \<Rightarrow> int" where
  "exponent x =
     (let m = \<bar>x\<bar>
      in max (- 1022) (if 1 \<le> m then bitlen \<lfloor>m\<rfloor> - 1 else - bitlen (\<lceil>1 / m\<rceil> - 1)))"

definition round_double :: "real \<Rightarrow> jsnum" where
  "round_double x =
     (if x = 0 then Fin 0
      else
        let u = 2 powi (exponent x - 52);
            r = of_int (round_half_even (x / u)) * u
        in if 2 ^ 1024 \<le> \<bar>r\<bar> then (if 0 < x then PosInf else NegInf) else Fin r)"

fun to_double :: "jsnum \<Rightarrow> jsnum" where
  "to_double (Fin x) = round_double x"
| "to_double v = v"

text \<open>The three operators of the handlers, on doubles: the exact result, rounded.\<close>

definition double_add :: "jsnum \<Rightarrow> jsnum \<Rightarrow> jsnum" where
  "double_add a b = to_double (js_add a b)"

definition double_sub :: "jsnum \<Rightarrow> jsnum \<Rightarrow> jsnum" where
  "double_sub a b = to_double (js_sub a b)"

definition double_div :: "jsnum \<Rightarrow> jsnum \<Rightarrow> jsnum" where
  "double_div a b = to_double (js_div a b)"

text \<open>
  An arithmetic is a choice of the three operators: \<open>double_arith\<close> is the arithmetic
  the source runs in, \<open>exact_arith\<close> is real arithmetic.
\<close>

record arithmetic =
  ar_add :: "jsnum \<Rightarrow> jsnum \<Rightarrow> jsnum"
  ar_sub :: "jsnum \<Rightarrow> jsnum \<Rightarrow> jsnum"
  ar_div :: "jsnum \<Rightarrow> jsnum \<Rightarrow> jsnum"

definition exact_arith :: arithmetic where
  "exact_arith = \<lparr>ar_add = js_add, ar_sub = js_sub, ar_div = js_div\<rparr>"

definition double_arith :: arithmetic where
  "double_arith = \<lparr>ar_add = double_add, ar_sub = double_sub, ar_div = double_div\<rparr>"

text \<open>
  The handlers once more, line by line as above, with \<^verbatim>\<open>+\<close>, \<^verbatim>\<open>-\<close> and \<^verbatim>\<open>/\<close> taken from
  the arithmetic \<open>ar\<close>. With \<open>double_arith\<close> they compute what the source computes,
  the quotient \<^verbatim>\<open>tradeAmount / SIMULATED_COIN_PRICE\<close> that the coin check compares
  included; with \<open>exact_arith\<close> they are the handlers of the previous section.
\<close>

definition handleSimulatedDeposit_in :: "arithmetic \<Rightarrow> balance \<Rightarrow> jsnum \<Rightarrow> action" where
  "handleSimulatedDeposit_in ar b a =
     (if js_le a (Fin 0) \<or> isNaN a then SetMessage InvalidAmount
      else
        let newFiat = ar_add ar (fiat b) a
        in UpdateBalance newFiat (coin b) (DepositSuccessful a newFiat))"

definition handleBuy_in :: "arithmetic \<Rightarrow> real \<Rightarrow> balance \<Rightarrow> jsnum \<Rightarrow> action" where
  "handleBuy_in ar price b a =
     (if js_le a (Fin 0) \<or> isNaN a then SetMessage InvalidAmount
      else
        let costInFiat = a;
            coinsReceived = ar_div ar costInFiat (Fin price)
        in if js_less (fiat b) costInFiat then SetMessage InsufficientFiat
           else
             let newFiat = ar_sub ar (fiat b) costInFiat;
                 newCoin = ar_add ar (coin b) coinsReceived
             in UpdateBalance newFiat newCoin (PurchaseSuccessful coinsReceived))"

definition handleSell_in :: "arithmetic \<Rightarrow> real \<Rightarrow> balance \<Rightarrow> jsnum \<Rightarrow> action" where
  "handleSell_in ar price b a =
     (if js_le a (Fin 0) \<or> isNaN a then SetMessage InvalidAmount
      else
        let coinsToSell = ar_div ar a (Fin price)
        in if js_less (coin b) coinsToSell then SetMessage InsufficientCoin
           else
             let fiatReceived = a;
                 newFiat = ar_add ar (fiat b) fiatReceived;
                 newCoin = ar_sub ar (coin b) coinsToSell
             in UpdateBalance newFiat newCoin (SaleSuccessful fiatReceived))"

fun ledger_apply_in :: "arithmetic \<Rightarrow> real \<Rightarrow> kind \<Rightarrow> balance \<Rightarrow> jsnum \<Rightarrow> action" where
  "ledger_apply_in ar price Deposit b a = handleSimulatedDeposit_in ar b a"
| "ledger_apply_in ar price Buy b a = handleBuy_in ar price b a"
| "ledger_apply_in ar price Sell b a = handleSell_in ar price b a"
| "ledger_apply_in ar price Withdraw b a = handleWithdraw b"

section \<open>The component state and the document store\<close>

text \<open>
  A value read from a stored document: the store is schemaless, so a field can hold
  any of these, or be missing (\<^verbatim>\<open>undefined\<close>). \<open>JObj\<close> stands for every object, array
  or timestamp.
\<close>

datatype jsval = JUndefined | JNull | JBool bool | JNum jsnum | JStr string | JObj

text \<open>Truthiness, and \<^verbatim>\<open>a || b\<close>.\<close>

fun truthy :: "jsval \<Rightarrow> bool" where
  "truthy JUndefined = False"
| "truthy JNull = False"
| "truthy (JBool v) = v"
| "truthy (JNum n) = (n \<noteq> NaN \<and> n \<noteq> Fin 0)"
| "truthy (JStr s) = (s \<noteq> [])"
| "truthy JObj = True"

definition js_or :: "jsval \<Rightarrow> jsval \<Rightarrow> jsval" where
  "js_or x y = (if truthy x then x else y)"

text \<open>A document is its fields; \<^verbatim>\<open>data.f\<close> of a missing field is \<^verbatim>\<open>undefined\<close>.\<close>

type_synonym doc = "string \<rightharpoonup> jsval"

definition field :: "doc \<Rightarrow> string \<Rightarrow> jsval" where
  "field d f = (case d f of None \<Rightarrow> JUndefined | Some v \<Rightarrow> v)"

text \<open>The document \<^verbatim>\<open>{ fiat: newFiat, coin: newCoin }\<close> that \<^verbatim>\<open>setDoc\<close> stores.\<close>

definition balance_doc :: "jsnum \<Rightarrow> jsnum \<Rightarrow> doc" where
  "balance_doc f c = [''fiat'' \<mapsto> JNum f, ''coin'' \<mapsto> JNum c]"

text \<open>
  The state of the component \<^verbatim>\<open>App\<close> together with the store it talks to.
  \<^item> \<open>db\<close>: whether the state variable \<^verbatim>\<open>db\<close> holds a Firestore handle (it starts as
    \<^verbatim>\<open>null\<close>);
  \<^item> \<open>userId\<close>: \<^verbatim>\<open>null\<close> is \<open>None\<close>;
  \<^item> \<open>modal\<close>: the open modal, \<^verbatim>\<open>null\<close> is \<open>None\<close>;
  \<^item> \<open>firestore\<close>: the balance document of each user, under the path
    \<^verbatim>\<open>artifacts/appId/users/userId/balances/user\<close>;
  \<^item> \<open>setDoc_calls\<close>: the calls of \<^verbatim>\<open>setDoc\<close> issued so far, with the user and the
    document of each; it is there to state that a run wrote nothing.
\<close>

record session =
  db :: bool
  userId :: "string option"
  isAuthReady :: bool
  userBalance :: balance
  modal :: "kind option"
  tradeAmount :: jsnum
  message :: message
  isLoading :: bool
  firestore :: "string \<rightharpoonup> doc"
  setDoc_calls :: "(string \<times> doc) list"

text \<open>\<^verbatim>\<open>!userId\<close>: \<^verbatim>\<open>null\<close> and the empty string are both falsy.\<close>

fun no_user :: "string option \<Rightarrow> bool" where
  "no_user None = True"
| "no_user (Some u) = (u = [])"

text \<open>
  \<^verbatim>\<open>updateBalance(newFiat, newCoin, successMessage)\<close>, run to the end of its
  \<^verbatim>\<open>finally\<close> block. \<open>write_ok\<close> says whether the promise of \<^verbatim>\<open>setDoc\<close> resolves; when
  it rejects the \<^verbatim>\<open>catch\<close> block sets the failure text. \<^verbatim>\<open>userBalance\<close> is not
  assigned here: only the snapshot listener assigns it.
\<close>

definition updateBalance :: "bool \<Rightarrow> jsnum \<Rightarrow> jsnum \<Rightarrow> message \<Rightarrow> session \<Rightarrow> session" where
  "updateBalance write_ok newFiat newCoin successMessage st =
     (case userId st of
        None \<Rightarrow> st
      | Some u \<Rightarrow>
          if \<not> db st \<or> u = [] then st
          else
            let d = balance_doc newFiat newCoin;
                st1 = st\<lparr>isLoading := True, setDoc_calls := setDoc_calls st @ [(u, d)]\<rparr>;
                st2 = (if write_ok
                       then st1\<lparr>firestore := (firestore st1)(u \<mapsto> d), message := successMessage\<rparr>
                       else st1\<lparr>message := Text ''Transaction failed due to a database error.''\<rparr>)
            in st2\<lparr>isLoading := False, modal := None\<rparr>)"

text \<open>Carrying out what a handler decided.\<close>

fun perform :: "bool \<Rightarrow> action \<Rightarrow> session \<Rightarrow> session" where
  "perform write_ok (SetMessage m) st = st\<lparr>message := m\<rparr>"
| "perform write_ok (UpdateBalance f c m) st = updateBalance write_ok f c m st"

text \<open>
  One user-issued intent from start to end: the handler of the kind, on the
  \<^verbatim>\<open>userBalance\<close> and \<^verbatim>\<open>tradeAmount\<close> of the state, at the price of the source.
  The amount of the intent is the \<^verbatim>\<open>tradeAmount\<close> the handler reads; the modal's call
  of \<^verbatim>\<open>setTradeAmount\<close> just before the handler is not part of this function.
\<close>

definition execute :: "bool \<Rightarrow> kind \<Rightarrow> session \<Rightarrow> session" where
  "execute write_ok k st =
     perform write_ok (ledger_apply SIMULATED_COIN_PRICE k (userBalance st) (tradeAmount st)) st"

text \<open>
  The callback of \<^verbatim>\<open>onSnapshot\<close>. The effect subscribes only when \<^verbatim>\<open>db\<close>, \<^verbatim>\<open>userId\<close>
  and \<^verbatim>\<open>isAuthReady\<close> are all set, so without them no callback runs. \<open>docSnap\<close> is
  \<open>None\<close> when \<^verbatim>\<open>docSnap.exists()\<close> is false. \<^verbatim>\<open>userBalance\<close> holds numbers in this
  model: a stored field that is truthy and not a number (a string, an object) would
  be copied into the state as it is, which the model does not follow (\<open>None\<close>).
  \<open>init_ok\<close> says whether the \<^verbatim>\<open>setDoc\<close> creating the default document resolves; its
  failure is only logged to the console.
\<close>

fun as_number :: "jsval \<Rightarrow> jsnum option" where
  "as_number (JNum n) = Some n"
| "as_number _ = None"

definition onSnapshot_next :: "bool \<Rightarrow> doc option \<Rightarrow> session \<Rightarrow> session option" where
  "onSnapshot_next init_ok docSnap st =
     (case userId st of
        None \<Rightarrow> Some st
      | Some u \<Rightarrow>
          if \<not> db st \<or> u = [] \<or> \<not> isAuthReady st then Some st
          else
            (case docSnap of
               Some data \<Rightarrow>
                 (case (as_number (js_or (field data ''fiat'') (JNum (Fin 0))),
                        as_number (js_or (field data ''coin'') (JNum (Fin 0)))) of
                    (Some f, Some c) \<Rightarrow>
                      Some (st\<lparr>userBalance := \<lparr>fiat = f, coin = c\<rparr>, message := Text ''''\<rparr>)
                  | _ \<Rightarrow> None)
             | None \<Rightarrow>
                 let d = balance_doc (Fin 1000) (Fin 0);
                     st1 = st\<lparr>userBalance := \<lparr>fiat = Fin 1000, coin = Fin 0\<rparr>,
                              setDoc_calls := setDoc_calls st @ [(u, d)]\<rparr>;
                     st2 = (if init_ok then st1\<lparr>firestore := (firestore st1)(u \<mapsto> d)\<rparr> else st1)
                 in Some (st2\<lparr>message := Text ''''\<rparr>)))"

section \<open>Predicates and sample states used in the statements\<close>

text \<open>\<^verbatim>\<open>fiat >= 0\<close> and \<^verbatim>\<open>coin >= 0\<close>, with the comparison of the source language.\<close>

definition nonneg :: "balance \<Rightarrow> bool" where
  "nonneg b = (js_le (Fin 0) (fiat b) \<and> js_le (Fin 0) (coin b))"

text \<open>The default balance \<^verbatim>\<open>{ fiat: 1000.00, coin: 0.00 }\<close>.\<close>

definition default_balance :: balance where
  "default_balance = \<lparr>fiat = Fin 1000, coin = Fin 0\<rparr>"

text \<open>
  The component before \<^verbatim>\<open>db\<close> and \<^verbatim>\<open>userId\<close> are set, with the initial
  \<^verbatim>\<open>tradeAmount\<close> of 10 and the deposit modal open.
\<close>

definition not_ready_session :: session where
  "not_ready_session =
     \<lparr>db = False, userId = None, isAuthReady = True, userBalance = default_balance,
      modal = Some Deposit, tradeAmount = Fin 10, message = Text '''', isLoading = False,
      firestore = Map.empty, setDoc_calls = []\<rparr>"

text \<open>A signed-in component holding 50 USD and no coin, about to buy for 100 USD.\<close>

definition ready_session :: session where
  "ready_session =
     \<lparr>db = True, userId = Some ''u1'', isAuthReady = True,
      userBalance = \<lparr>fiat = Fin 50, coin = Fin 0\<rparr>, modal = Some Buy,
      tradeAmount = Fin 100, message = Text '''', isLoading = False,
      firestore = Map.empty, setDoc_calls = []\<rparr>"

section \<open>Facts about the number operations\<close>

lemma valid_amount_iff: "(\<not> (js_le a (Fin 0) \<or> isNaN a)) = js_less (Fin 0) a"
  by (cases a) auto

lemma js_less_irrefl: "\<not> js_less a a"
  by (cases a) auto

lemma js_less_imp_le: "js_less (Fin 0) a \<Longrightarrow> js_le (Fin 0) a"
  by (cases a) auto

lemma not_js_less_imp_le:
  "js_le (Fin 0) x \<Longrightarrow> js_le (Fin 0) y \<Longrightarrow> \<not> js_less x y \<Longrightarrow> js_le y x"
  by (cases x; cases y) auto

lemma js_add_nonneg: "js_le (Fin 0) x \<Longrightarrow> js_le (Fin 0) y \<Longrightarrow> js_le (Fin 0) (js_add x y)"
  by (cases x; cases y) simp_all

lemma js_sub_nonneg:
  "js_le y x \<Longrightarrow> js_le (Fin 0) y \<Longrightarrow> \<not> (x = PosInf \<and> y = PosInf) \<Longrightarrow>
     js_le (Fin 0) (js_sub x y)"
  by (cases x; cases y) simp_all

lemma js_div_nonneg: "js_less (Fin 0) a \<Longrightarrow> 0 < p \<Longrightarrow> js_le (Fin 0) (js_div a (Fin p))"
  by (cases a) simp_all

text \<open>Rounding to a double keeps the sign.\<close>

lemma round_half_even_nonneg: "0 \<le> q \<Longrightarrow> 0 \<le> round_half_even q"
  by (simp add: round_half_even_def Let_def)

lemma round_double_nonneg: "0 \<le> x \<Longrightarrow> js_le (Fin 0) (round_double x)"
  by (simp add: round_double_def Let_def round_half_even_nonneg)

lemma to_double_nonneg: "js_le (Fin 0) v \<Longrightarrow> js_le (Fin 0) (to_double v)"
  by (cases v) (simp_all add: round_double_nonneg)

text \<open>What the proof of non-negative balances needs of an arithmetic.\<close>

lemma arith_nonneg:
  assumes "ar = exact_arith \<or> ar = double_arith"
  shows "js_le (Fin 0) x \<Longrightarrow> js_le (Fin 0) y \<Longrightarrow> js_le (Fin 0) (ar_add ar x y)"
    and "js_le y x \<Longrightarrow> js_le (Fin 0) y \<Longrightarrow> \<not> (x = PosInf \<and> y = PosInf) \<Longrightarrow>
           js_le (Fin 0) (ar_sub ar x y)"
    and "js_less (Fin 0) a \<Longrightarrow> 0 < p \<Longrightarrow> js_le (Fin 0) (ar_div ar a (Fin p))"
  using assms
  by (auto simp: exact_arith_def double_arith_def double_add_def double_sub_def double_div_def
        to_double_nonneg js_add_nonneg js_sub_nonneg js_div_nonneg)

text \<open>In exact arithmetic the handlers are those of the section on the trading handlers.\<close>

lemma ledger_apply_in_exact: "ledger_apply_in exact_arith price k b a = ledger_apply price k b a"
  by (cases k)
     (simp_all add: exact_arith_def handleSimulatedDeposit_in_def handleSimulatedDeposit_def
        handleBuy_in_def handleBuy_def handleSell_in_def handleSell_def Let_def)

text \<open>Quotients, sums and differences of doubles used in the examples below.\<close>

lemma double_div_500: "double_div (Fin 500) (Fin 68500) = Fin (4207742717543237 / 2 ^ 59)"
  by code_simp

lemma double_div_100: "double_div (Fin 100) (Fin 68500) = Fin (6732388348069179 / 2 ^ 62)"
  by code_simp

lemma double_div_137001: "double_div (Fin 137001) (Fin 68500) = Fin (4503632500360477 / 2 ^ 51)"
  by code_simp

lemma double_add_coin_500: "double_add (Fin 0) (Fin (4207742717543237 / 2 ^ 59)) =
    Fin (4207742717543237 / 2 ^ 59)"
  by code_simp

lemma double_add_coin_100: "double_add (Fin 1) (Fin (6732388348069179 / 2 ^ 62)) =
    Fin (4510174225366657 / 2 ^ 52)"
  by code_simp

lemma double_sub_coin_100:
  "double_sub (Fin (4510174225366657 / 2 ^ 52)) (Fin (6732388348069179 / 2 ^ 62)) =
     Fin (9007199254740991 / 2 ^ 53)"
  by code_simp

lemma double_sub_coin_500:
  "double_sub (Fin (4207742717543237 / 2 ^ 59)) (Fin (4207742717543237 / 2 ^ 59)) = Fin 0"
  by code_simp

lemma double_fiat_sums:
  "double_sub (Fin 1000) (Fin 500) = Fin 500 \<and> double_add (Fin 500) (Fin 500) = Fin 1000 \<and>
   double_sub (Fin 1000) (Fin 100) = Fin 900 \<and> double_add (Fin 900) (Fin 100) = Fin 1000"
  by code_simp

section \<open>The ledger: what each handler decides\<close>

subsection \<open>Non-negative balances\<close>

text \<open>
  C1: in the arithmetic of doubles and in exact arithmetic alike, at a positive price,
  for every balance with \<open>fiat \<ge> 0\<close> and \<open>coin \<ge> 0\<close>, every kind of intent and every
  amount: a handler that accepts, that is calls
  \<^verbatim>\<open>updateBalance(newFiat, newCoin, ...)\<close>, passes \<open>newFiat \<ge> 0\<close> and \<open>newCoin \<ge> 0\<close>.
  The amounts are those the component holds: \<^verbatim>\<open>tradeAmount\<close> starts as 10 and the modal
  passes \<^verbatim>\<open>parseFloat\<close> of a number input, a finite number or \<^verbatim>\<open>NaN\<close>. The last two
  hypotheses before the acceptance say no more than that \<^verbatim>\<open>Infinity\<close> is not subtracted
  from \<^verbatim>\<open>Infinity\<close>: a purchase for \<^verbatim>\<open>Infinity\<close> is not made from a fiat balance of
  \<^verbatim>\<open>Infinity\<close>, nor a sale whose \<open>coinsToSell\<close> is \<^verbatim>\<open>Infinity\<close> from a coin balance of
  \<^verbatim>\<open>Infinity\<close>. On every balance, a finite amount and \<^verbatim>\<open>NaN\<close> satisfy the first, and
  the second unless the quotient overflows, which needs a price below 1; every
  amount satisfies both on a finite balance, and so does every deposit and withdrawal.
\<close>

theorem ledger_apply_keeps_nonneg:
  assumes ar: "ar = exact_arith \<or> ar = double_arith"
    and price: "0 < price"
    and b: "nonneg b"
    and buy_inf: "k = Buy \<and> a = PosInf \<longrightarrow> fiat b \<noteq> PosInf"
    and sell_inf: "k = Sell \<and> ar_div ar a (Fin price) = PosInf \<longrightarrow> coin b \<noteq> PosInf"
    and acc: "ledger_apply_in ar price k b a = UpdateBalance f c m"
  shows "js_le (Fin 0) f \<and> js_le (Fin 0) c"
proof (cases k)
  case Deposit
  with acc have a: "js_less (Fin 0) a" and f: "f = ar_add ar (fiat b) a" and c: "c = coin b"
    using valid_amount_iff [of a]
    by (auto simp: handleSimulatedDeposit_in_def Let_def split: if_splits)
  from a have "js_le (Fin 0) a"
    by (rule js_less_imp_le)
  with b f c arith_nonneg(1) [OF ar] show ?thesis
    by (simp add: nonneg_def)
next
  case Buy
  with acc have a: "js_less (Fin 0) a" and nl: "\<not> js_less (fiat b) a"
    and f: "f = ar_sub ar (fiat b) a"
    and c: "c = ar_add ar (coin b) (ar_div ar a (Fin price))"
    using valid_amount_iff [of a]
    by (auto simp: handleBuy_in_def Let_def split: if_splits)
  from a have a0: "js_le (Fin 0) a"
    by (rule js_less_imp_le)
  from b a0 nl have le: "js_le a (fiat b)"
    by (simp add: nonneg_def not_js_less_imp_le)
  from buy_inf Buy have "\<not> (fiat b = PosInf \<and> a = PosInf)"
    by blast
  with le a0 have "js_le (Fin 0) f"
    unfolding f by (rule arith_nonneg(2) [OF ar])
  moreover from a price have "js_le (Fin 0) (ar_div ar a (Fin price))"
    by (rule arith_nonneg(3) [OF ar])
  with b have "js_le (Fin 0) c"
    unfolding c by (simp add: nonneg_def arith_nonneg(1) [OF ar])
  ultimately show ?thesis
    by simp
next
  case Sell
  with acc have a: "js_less (Fin 0) a"
    and nl: "\<not> js_less (coin b) (ar_div ar a (Fin price))"
    and f: "f = ar_add ar (fiat b) a"
    and c: "c = ar_sub ar (coin b) (ar_div ar a (Fin price))"
    using valid_amount_iff [of a]
    by (auto simp: handleSell_in_def Let_def split: if_splits)
  from a have a0: "js_le (Fin 0) a"
    by (rule js_less_imp_le)
  from a price have q0: "js_le (Fin 0) (ar_div ar a (Fin price))"
    by (rule arith_nonneg(3) [OF ar])
  from b q0 nl have le: "js_le (ar_div ar a (Fin price)) (coin b)"
    by (simp add: nonneg_def not_js_less_imp_le)
  from sell_inf Sell have "\<not> (coin b = PosInf \<and> ar_div ar a (Fin price) = PosInf)"
    by blast
  with le q0 have "js_le (Fin 0) c"
    unfolding c by (rule arith_nonneg(2) [OF ar])
  moreover from b a0 have "js_le (Fin 0) f"
    unfolding f by (simp add: nonneg_def arith_nonneg(1) [OF ar])
  ultimately show ?thesis
    by simp
next
  case Withdraw
  with acc b show ?thesis
    by (auto simp: nonneg_def handleWithdraw_def Let_def split: if_splits)
qed

text \<open>
  Scenario A of the specification, in doubles: 1000 USD, buying for 500 USD at 68500.
  The coins received are the double nearest to 500 / 68500.
\<close>

theorem ledger_apply_keeps_nonneg_witness:
  "(double_arith = exact_arith \<or> double_arith = double_arith) \<and>
   0 < SIMULATED_COIN_PRICE \<and> nonneg default_balance \<and>
   Fin 500 \<noteq> PosInf \<and> Buy \<noteq> Sell \<and>
   ledger_apply_in double_arith SIMULATED_COIN_PRICE Buy default_balance (Fin 500) =
     UpdateBalance (Fin 500) (Fin (4207742717543237 / 2 ^ 59))
       (PurchaseSuccessful (Fin (4207742717543237 / 2 ^ 59))) \<and>
   js_le (Fin 0) (Fin 500) \<and> js_le (Fin 0) (Fin (4207742717543237 / 2 ^ 59))"
proof -
  have h1: "double_arith = exact_arith \<or> double_arith = double_arith"
    by simp
  have h2: "0 < SIMULATED_COIN_PRICE"
    by (simp add: SIMULATED_COIN_PRICE_def)
  have h3: "nonneg default_balance"
    by (simp add: nonneg_def default_balance_def)
  have fin: "Fin 500 \<noteq> PosInf \<and> Buy \<noteq> Sell"
    by simp
  then have h4: "Buy = Buy \<and> Fin 500 = PosInf \<longrightarrow> fiat default_balance \<noteq> PosInf"
    by simp
  have h4': "Buy = Sell \<and>
      ar_div double_arith (Fin 500) (Fin SIMULATED_COIN_PRICE) = PosInf \<longrightarrow>
      coin default_balance \<noteq> PosInf"
    by simp
  have h5: "ledger_apply_in double_arith SIMULATED_COIN_PRICE Buy default_balance (Fin 500) =
     UpdateBalance (Fin 500) (Fin (4207742717543237 / 2 ^ 59))
       (PurchaseSuccessful (Fin (4207742717543237 / 2 ^ 59)))"
    using double_div_500 double_add_coin_500 double_fiat_sums
    by (simp add: handleBuy_in_def Let_def default_balance_def double_arith_def
          SIMULATED_COIN_PRICE_def)
  from ledger_apply_keeps_nonneg [OF h1 h2 h3 h4 h4' h5] h1 h2 h3 fin h5 show ?thesis
    by blast
qed

subsection \<open>Buy\<close>



subsection \<open>Sell\<close>

text \<open>
  C3: in every arithmetic, that of doubles included, \<^verbatim>\<open>handleSell\<close> leaves with the
  invalid-amount text when the amount is \<^verbatim>\<open><= 0\<close> or \<^verbatim>\<open>NaN\<close>; for any other amount,
  with \<open>coinsToSell = amount / price\<close> as that arithmetic computes it, it leaves with
  the insufficient-coin text when \<open>coin < coinsToSell\<close>, and otherwise calls
  \<^verbatim>\<open>updateBalance\<close> with \<open>newFiat = fiat + amount\<close> and
  \<open>newCoin = coin - coinsToSell\<close>; \<open>coinsToSell\<close> equal to the coin balance is
  accepted.
\<close>

theorem handleSell_outcomes:
  "(js_le a (Fin 0) \<or> isNaN a \<longrightarrow> handleSell_in ar p b a = SetMessage InvalidAmount) \<and>
   (js_less (Fin 0) a \<and> js_less (coin b) (ar_div ar a (Fin p)) \<longrightarrow>
      handleSell_in ar p b a = SetMessage InsufficientCoin) \<and>
   (js_less (Fin 0) a \<and> \<not> js_less (coin b) (ar_div ar a (Fin p)) \<longrightarrow>
      handleSell_in ar p b a =
        UpdateBalance (ar_add ar (fiat b) a) (ar_sub ar (coin b) (ar_div ar a (Fin p)))
          (SaleSuccessful a)) \<and>
   (js_less (Fin 0) a \<and> coin b = ar_div ar a (Fin p) \<longrightarrow>
      (\<exists>f c m. handleSell_in ar p b a = UpdateBalance f c m)) \<and>
   (js_less (Fin 0) a = (\<not> (js_le a (Fin 0) \<or> isNaN a)))"
  using valid_amount_iff [of a] js_less_irrefl [of "ar_div ar a (Fin p)"]
  by (auto simp: handleSell_in_def Let_def)

text \<open>
  In doubles, at the price of the source. The balance after buying for 500 USD from
  nothing holds the double nearest to 500 / 68500 in coin, and selling for 500 USD
  takes exactly that: the sale is accepted and leaves no coin. On a balance of 2
  coins, selling for 137001 USD takes more than 2 coins and is refused. A negative
  amount is invalid.
\<close>

theorem handleSell_outcomes_witness:
  "js_le (Fin (- 5)) (Fin 0) \<and>
   handleSell_in double_arith SIMULATED_COIN_PRICE \<lparr>fiat = Fin 0, coin = Fin 2\<rparr> (Fin (- 5)) =
     SetMessage InvalidAmount \<and>
   js_less (Fin 0) (Fin 137001) \<and>
   js_less (coin \<lparr>fiat = Fin 0, coin = Fin 2\<rparr>)
     (ar_div double_arith (Fin 137001) (Fin SIMULATED_COIN_PRICE)) \<and>
   handleSell_in double_arith SIMULATED_COIN_PRICE \<lparr>fiat = Fin 0, coin = Fin 2\<rparr> (Fin 137001) =
     SetMessage InsufficientCoin \<and>
   js_less (Fin 0) (Fin 500) \<and>
   coin \<lparr>fiat = Fin 500, coin = Fin (4207742717543237 / 2 ^ 59)\<rparr> =
     ar_div double_arith (Fin 500) (Fin SIMULATED_COIN_PRICE) \<and>
   handleSell_in double_arith SIMULATED_COIN_PRICE
       \<lparr>fiat = Fin 500, coin = Fin (4207742717543237 / 2 ^ 59)\<rparr> (Fin 500) =
     UpdateBalance (Fin 1000) (Fin 0) (SaleSuccessful (Fin 500))"
proof -
  have q1: "ar_div double_arith (Fin 137001) (Fin SIMULATED_COIN_PRICE) =
      Fin (4503632500360477 / 2 ^ 51)"
    using double_div_137001 by (simp add: double_arith_def SIMULATED_COIN_PRICE_def)
  have q2: "ar_div double_arith (Fin 500) (Fin SIMULATED_COIN_PRICE) =
      Fin (4207742717543237 / 2 ^ 59)"
    using double_div_500 by (simp add: double_arith_def SIMULATED_COIN_PRICE_def)
  have s: "ar_add double_arith (Fin 500) (Fin 500) = Fin 1000"
    "ar_sub double_arith (Fin (4207742717543237 / 2 ^ 59)) (Fin (4207742717543237 / 2 ^ 59)) =
       Fin 0"
    using double_fiat_sums double_sub_coin_500 by (simp_all add: double_arith_def)
  from
    handleSell_outcomes [where a = "Fin (- 5)" and ar = double_arith
      and p = SIMULATED_COIN_PRICE and b = "\<lparr>fiat = Fin 0, coin = Fin 2\<rparr>"]
    handleSell_outcomes [where a = "Fin 137001" and ar = double_arith
      and p = SIMULATED_COIN_PRICE and b = "\<lparr>fiat = Fin 0, coin = Fin 2\<rparr>"]
    handleSell_outcomes [where a = "Fin 500" and ar = double_arith
      and p = SIMULATED_COIN_PRICE
      and b = "\<lparr>fiat = Fin 500, coin = Fin (4207742717543237 / 2 ^ 59)\<rparr>"]
    q1 q2 s
  show ?thesis
    by simp
qed

subsection \<open>Withdraw\<close>

text \<open>
  C4: \<^verbatim>\<open>handleWithdraw\<close> does not read the amount: the outcome for the kind
  \<open>Withdraw\<close> is the same for every amount, and running the intent with another
  \<^verbatim>\<open>tradeAmount\<close> changes nothing but that variable. It compares the coin balance with
  \<^verbatim>\<open>MIN_WITHDRAWAL_AMOUNT\<close>, which is 100: below it the handler leaves with the
  below-minimum text, and otherwise it calls \<^verbatim>\<open>updateBalance\<close> with the fiat balance
  unchanged and \<open>newCoin = 0\<close>, whatever the coin balance was.
\<close>

theorem handleWithdraw_outcomes:
  "MIN_WITHDRAWAL_AMOUNT = Fin 100 \<and>
   (js_less (coin b) (Fin 100) \<longrightarrow> handleWithdraw b = SetMessage (BelowMinimum (coin b))) \<and>
   (\<not> js_less (coin b) (Fin 100) \<longrightarrow>
      handleWithdraw b = UpdateBalance (fiat b) (Fin 0) (WithdrawalInitiated (coin b))) \<and>
   ledger_apply p Withdraw b a = handleWithdraw b \<and>
   execute ok Withdraw (st\<lparr>tradeAmount := a\<rparr>) = (execute ok Withdraw st)\<lparr>tradeAmount := a\<rparr>"
  by (cases "handleWithdraw (userBalance st)")
     (auto simp: handleWithdraw_def MIN_WITHDRAWAL_AMOUNT_def execute_def updateBalance_def Let_def
           split: option.splits)

text \<open>Scenarios D and E of the specification: 50 coins and 150 coins.\<close>

theorem handleWithdraw_outcomes_witness:
  "js_less (coin \<lparr>fiat = Fin 0, coin = Fin 50\<rparr>) (Fin 100) \<and>
   handleWithdraw \<lparr>fiat = Fin 0, coin = Fin 50\<rparr> = SetMessage (BelowMinimum (Fin 50)) \<and>
   \<not> js_less (coin \<lparr>fiat = Fin 0, coin = Fin 150\<rparr>) (Fin 100) \<and>
   handleWithdraw \<lparr>fiat = Fin 0, coin = Fin 150\<rparr> =
     UpdateBalance (Fin 0) (Fin 0) (WithdrawalInitiated (Fin 150))"
  using
    handleWithdraw_outcomes [where b = "\<lparr>fiat = Fin 0, coin = Fin 50\<rparr>",
      THEN conjunct2, THEN conjunct1]
    handleWithdraw_outcomes [where b = "\<lparr>fiat = Fin 0, coin = Fin 150\<rparr>",
      THEN conjunct2, THEN conjunct2, THEN conjunct1]
  by simp

subsection \<open>Deposit\<close>



subsection \<open>Value is conserved by a purchase and by a sale\<close>

text \<open>
  C7: in exact arithmetic, that is on a balance of two finite numbers taken as reals,
  at a price \<open>p > 0\<close>: when \<^verbatim>\<open>handleBuy\<close> or \<^verbatim>\<open>handleSell\<close> accepts an amount, the
  balance it writes is finite again and \<open>newFiat + newCoin * p = fiat + coin * p\<close>.
\<close>

theorem buy_sell_conserve_value:
  assumes "0 < p" and "fiat b = Fin f" and "coin b = Fin c" and "k = Buy \<or> k = Sell"
    and "ledger_apply p k b a = UpdateBalance f' c' m"
  shows "\<exists>x y. f' = Fin x \<and> c' = Fin y \<and> x + y * p = f + c * p"
  using assms
  by (cases a)
     (auto simp: handleBuy_def handleSell_def Let_def distrib_right left_diff_distrib
           split: if_splits)

text \<open>Scenario B of the specification: 0.01 coin, selling for 500 USD at 68500.\<close>

theorem buy_sell_conserve_value_witness:
  "0 < SIMULATED_COIN_PRICE \<and>
   fiat \<lparr>fiat = Fin 0, coin = Fin (1 / 100)\<rparr> = Fin 0 \<and>
   coin \<lparr>fiat = Fin 0, coin = Fin (1 / 100)\<rparr> = Fin (1 / 100) \<and>
   (Sell = Buy \<or> Sell = Sell) \<and>
   ledger_apply SIMULATED_COIN_PRICE Sell \<lparr>fiat = Fin 0, coin = Fin (1 / 100)\<rparr> (Fin 500) =
     UpdateBalance (Fin 500) (Fin (1 / 100 - 500 / 68500)) (SaleSuccessful (Fin 500)) \<and>
   (\<exists>x y. Fin 500 = Fin x \<and> Fin (1 / 100 - 500 / 68500) = Fin y \<and>
      x + y * SIMULATED_COIN_PRICE = 0 + 1 / 100 * SIMULATED_COIN_PRICE)"
proof -
  have h1: "0 < SIMULATED_COIN_PRICE"
    by (simp add: SIMULATED_COIN_PRICE_def)
  have h2: "fiat \<lparr>fiat = Fin 0, coin = Fin (1 / 100)\<rparr> = Fin 0"
    by simp
  have h3: "coin \<lparr>fiat = Fin 0, coin = Fin (1 / 100)\<rparr> = Fin (1 / 100)"
    by simp
  have h4: "Sell = Buy \<or> Sell = Sell"
    by simp
  have h5: "ledger_apply SIMULATED_COIN_PRICE Sell \<lparr>fiat = Fin 0, coin = Fin (1 / 100)\<rparr> (Fin 500) =
     UpdateBalance (Fin 500) (Fin (1 / 100 - 500 / 68500)) (SaleSuccessful (Fin 500))"
    by (simp add: handleSell_def Let_def SIMULATED_COIN_PRICE_def)
  from buy_sell_conserve_value [OF h1 h2 h3 h4 h5] h1 h2 h3 h4 h5 show ?thesis
    by blast
qed

subsection \<open>A purchase followed by the sale of the same amount\<close>

text \<open>
  C5, as stated, fails: the doubles of the source round. From 1000 USD and 1 coin,
  buying for 100 USD at 68500 adds the double nearest to 100 / 68500 to the coin
  balance and rounds the sum; the sale for 100 USD that follows is accepted, takes
  the same quotient away and rounds again, and writes
  9007199254740991 / 2 ^ 53 coin, the double just below 1, with 1000 USD.
\<close>

theorem buy_then_sell_counterexample:
  "js_less (Fin 0) (Fin 100) \<and> js_le (Fin 100) (fiat \<lparr>fiat = Fin 1000, coin = Fin 1\<rparr>) \<and>
   handleBuy_in double_arith SIMULATED_COIN_PRICE \<lparr>fiat = Fin 1000, coin = Fin 1\<rparr> (Fin 100) =
     UpdateBalance (Fin 900) (Fin (4510174225366657 / 2 ^ 52))
       (PurchaseSuccessful (Fin (6732388348069179 / 2 ^ 62))) \<and>
   handleSell_in double_arith SIMULATED_COIN_PRICE
       \<lparr>fiat = Fin 900, coin = Fin (4510174225366657 / 2 ^ 52)\<rparr> (Fin 100) =
     UpdateBalance (Fin 1000) (Fin (9007199254740991 / 2 ^ 53)) (SaleSuccessful (Fin 100)) \<and>
   Fin (9007199254740991 / 2 ^ 53) \<noteq> Fin 1"
  using double_div_100 double_add_coin_100 double_sub_coin_100 double_fiat_sums
  by (simp add: handleBuy_in_def handleSell_in_def Let_def double_arith_def
        SIMULATED_COIN_PRICE_def)

text \<open>
  C5 (amended): computed in exact arithmetic, for every balance with \<open>coin \<ge> 0\<close>,
  every amount \<open>x > 0\<close> with \<open>x \<le> fiat\<close> and every price \<open>p > 0\<close>: \<^verbatim>\<open>handleBuy\<close>
  accepts the amount, \<^verbatim>\<open>handleSell\<close> on the balance so written accepts it too, and the
  balance the sale writes is the one before the purchase, in both fields.
\<close>

theorem buy_then_sell_roundtrip:
  assumes "0 < p" and "js_le (Fin 0) (coin b)" and "0 < x" and "js_le (Fin x) (fiat b)"
  shows "handleBuy_in exact_arith p b (Fin x) =
           UpdateBalance (js_sub (fiat b) (Fin x)) (js_add (coin b) (Fin (x / p)))
             (PurchaseSuccessful (Fin (x / p))) \<and>
         handleSell_in exact_arith p
             \<lparr>fiat = js_sub (fiat b) (Fin x), coin = js_add (coin b) (Fin (x / p))\<rparr> (Fin x) =
           UpdateBalance (fiat b) (coin b) (SaleSuccessful (Fin x))"
  using assms
  by (cases "fiat b"; cases "coin b")
     (auto simp: handleBuy_in_def handleSell_in_def exact_arith_def Let_def)

text \<open>The same purchase and sale as above, in exact arithmetic: 1 coin comes back.\<close>

theorem buy_then_sell_roundtrip_witness:
  "0 < SIMULATED_COIN_PRICE \<and> js_le (Fin 0) (coin \<lparr>fiat = Fin 1000, coin = Fin 1\<rparr>) \<and>
   (0::real) < 100 \<and> js_le (Fin 100) (fiat \<lparr>fiat = Fin 1000, coin = Fin 1\<rparr>) \<and>
   handleBuy_in exact_arith SIMULATED_COIN_PRICE \<lparr>fiat = Fin 1000, coin = Fin 1\<rparr> (Fin 100) =
     UpdateBalance (Fin 900) (Fin (1 + 100 / 68500)) (PurchaseSuccessful (Fin (100 / 68500))) \<and>
   handleSell_in exact_arith SIMULATED_COIN_PRICE
       \<lparr>fiat = Fin 900, coin = Fin (1 + 100 / 68500)\<rparr> (Fin 100) =
     UpdateBalance (Fin 1000) (Fin 1) (SaleSuccessful (Fin 100))"
  using buy_then_sell_roundtrip [where p = SIMULATED_COIN_PRICE
      and b = "\<lparr>fiat = Fin 1000, coin = Fin 1\<rparr>" and x = 100]
  by (simp add: SIMULATED_COIN_PRICE_def)

section \<open>The session: from a handler's decision to the store\<close>

lemma rejection_reasons:
  assumes "ledger_apply p k b a = SetMessage m"
  shows "m = InvalidAmount \<or> m = InsufficientFiat \<or> m = InsufficientCoin \<or>
         m = BelowMinimum (coin b)"
  using assms
  by (cases k)
     (auto simp: handleSimulatedDeposit_def handleBuy_def handleSell_def handleWithdraw_def
           Let_def
           split: if_splits)

lemma updateBalance_not_ready:
  "\<not> db st \<or> no_user (userId st) \<Longrightarrow> updateBalance ok f c m st = st"
  by (cases "userId st") (auto simp: updateBalance_def)

lemma falsy_load: "\<not> truthy v \<Longrightarrow> as_number (js_or v (JNum (Fin 0))) = Some (Fin 0)"
  by (simp add: js_or_def)

subsection \<open>A rejected intent\<close>

text \<open>
  C8: when the handler of an intent rejects it, which it does by setting one of the
  four rejection texts (invalid amount, insufficient fiat, insufficient coin, below
  minimum), running the intent changes the \<^verbatim>\<open>message\<close> variable to that text and
  nothing else: the stored documents are the same, no \<^verbatim>\<open>setDoc\<close> is issued, and
  \<^verbatim>\<open>userBalance\<close> is unchanged.
\<close>

theorem rejected_intent_only_sets_message:
  assumes "ledger_apply SIMULATED_COIN_PRICE k (userBalance st) (tradeAmount st) = SetMessage m"
  shows "execute ok k st = st\<lparr>message := m\<rparr> \<and>
         firestore (execute ok k st) = firestore st \<and>
         setDoc_calls (execute ok k st) = setDoc_calls st \<and>
         userBalance (execute ok k st) = userBalance st \<and>
         (m = InvalidAmount \<or> m = InsufficientFiat \<or> m = InsufficientCoin \<or>
          m = BelowMinimum (coin (userBalance st)))"
  using assms rejection_reasons [OF assms]
  by (simp add: execute_def)

text \<open>Scenario C of the specification: 50 USD, buying for 100 USD.\<close>

theorem rejected_intent_only_sets_message_witness:
  "ledger_apply SIMULATED_COIN_PRICE Buy (userBalance ready_session) (tradeAmount ready_session) =
     SetMessage InsufficientFiat \<and>
   execute True Buy ready_session = ready_session\<lparr>message := InsufficientFiat\<rparr> \<and>
   firestore (execute True Buy ready_session) = firestore ready_session \<and>
   setDoc_calls (execute True Buy ready_session) = [] \<and>
   userBalance (execute True Buy ready_session) = \<lparr>fiat = Fin 50, coin = Fin 0\<rparr>"
proof -
  have h: "ledger_apply SIMULATED_COIN_PRICE Buy (userBalance ready_session)
             (tradeAmount ready_session) = SetMessage InsufficientFiat"
    by (simp add: handleBuy_def Let_def ready_session_def)
  from rejected_intent_only_sets_message [OF h, where ok = True] h show ?thesis
    by (simp add: ready_session_def)
qed

subsection \<open>No identity or no store handle\<close>

text \<open>
  C9, as stated, fails: nothing is surfaced and the check does not come first. The
  handler validates the intent before \<^verbatim>\<open>updateBalance\<close> looks at \<^verbatim>\<open>db\<close> and
  \<^verbatim>\<open>userId\<close>, and \<^verbatim>\<open>updateBalance\<close> then returns without setting any message. With
  neither \<^verbatim>\<open>db\<close> nor \<^verbatim>\<open>userId\<close> set, an acceptable deposit of 10 leaves the whole
  state as it was, the empty message included, while a deposit of 0 shows the
  invalid-amount text.
\<close>

theorem not_ready_silent_counterexample:
  "\<not> db not_ready_session \<and> no_user (userId not_ready_session) \<and>
   ledger_apply SIMULATED_COIN_PRICE Deposit (userBalance not_ready_session)
       (tradeAmount not_ready_session) =
     UpdateBalance (Fin 1010) (Fin 0) (DepositSuccessful (Fin 10) (Fin 1010)) \<and>
   execute True Deposit not_ready_session = not_ready_session \<and>
   message (execute True Deposit not_ready_session) = Text '''' \<and>
   message (execute True Deposit (not_ready_session\<lparr>tradeAmount := Fin 0\<rparr>)) = InvalidAmount"
  by (simp add: not_ready_session_def default_balance_def execute_def
        handleSimulatedDeposit_def updateBalance_def Let_def)

text \<open>
  C9 (amended): for every intent, if the user identity or the store handle is absent
  then running the intent performs no store access: the stored documents are the
  same and no \<^verbatim>\<open>setDoc\<close> is issued. An intent the handler rejects still shows its
  rejection text; an intent the handler accepts is dropped without any message, the
  state being left exactly as it was.
\<close>

theorem not_ready_no_store_access:
  assumes "\<not> db st \<or> no_user (userId st)"
  shows "firestore (execute ok k st) = firestore st \<and>
         setDoc_calls (execute ok k st) = setDoc_calls st \<and>
         (case ledger_apply SIMULATED_COIN_PRICE k (userBalance st) (tradeAmount st) of
            SetMessage m \<Rightarrow> execute ok k st = st\<lparr>message := m\<rparr>
          | UpdateBalance f c m \<Rightarrow> execute ok k st = st)"
  using updateBalance_not_ready [OF assms]
  by (cases "ledger_apply SIMULATED_COIN_PRICE k (userBalance st) (tradeAmount st)")
     (simp_all add: execute_def)

theorem not_ready_no_store_access_witness:
  "\<not> db not_ready_session \<and> no_user (userId not_ready_session) \<and>
   firestore (execute True Buy not_ready_session) = firestore not_ready_session \<and>
   setDoc_calls (execute True Buy not_ready_session) = [] \<and>
   execute True Buy not_ready_session = not_ready_session"
proof -
  have h: "\<not> db not_ready_session \<or> no_user (userId not_ready_session)"
    by (simp add: not_ready_session_def)
  have a: "ledger_apply SIMULATED_COIN_PRICE Buy (userBalance not_ready_session)
             (tradeAmount not_ready_session) =
           UpdateBalance (Fin 990) (Fin (10 / 68500)) (PurchaseSuccessful (Fin (10 / 68500)))"
    by (simp add: not_ready_session_def default_balance_def handleBuy_def Let_def
          SIMULATED_COIN_PRICE_def)
  have n: "\<not> db not_ready_session \<and> no_user (userId not_ready_session)"
    by (simp add: not_ready_session_def)
  from not_ready_no_store_access [OF h, where ok = True and k = Buy] n a show ?thesis
    by (simp add: not_ready_session_def)
qed

subsection \<open>The snapshot listener\<close>

text \<open>
  C10: when a snapshot of an existing document arrives at a subscribed component, a
  fiat field that is falsy is loaded as 0, and so is a falsy coin field; the other
  field is loaded through the same default, and the message is cleared. A field that
  is missing, or holds \<^verbatim>\<open>null\<close>, \<^verbatim>\<open>false\<close>, 0, \<^verbatim>\<open>NaN\<close> or the empty string, is falsy.
  The balance loaded is the \<^verbatim>\<open>userBalance\<close> every later handler reads, so the next
  intent is decided from 0 in that field.
\<close>

theorem snapshot_falsy_field_loads_zero:
  assumes "db st" and "userId st = Some u" and "u \<noteq> []" and "isAuthReady st"
  shows "(\<not> truthy (field data ''fiat'') \<and>
            as_number (js_or (field data ''coin'') (JNum (Fin 0))) = Some c \<longrightarrow>
            onSnapshot_next ok (Some data) st =
              Some (st\<lparr>userBalance := \<lparr>fiat = Fin 0, coin = c\<rparr>, message := Text ''''\<rparr>)) \<and>
         (\<not> truthy (field data ''coin'') \<and>
            as_number (js_or (field data ''fiat'') (JNum (Fin 0))) = Some f \<longrightarrow>
            onSnapshot_next ok (Some data) st =
              Some (st\<lparr>userBalance := \<lparr>fiat = f, coin = Fin 0\<rparr>, message := Text ''''\<rparr>)) \<and>
         (data fld = None \<or>
          field data fld \<in> {JUndefined, JNull, JBool False, JNum (Fin 0), JNum NaN, JStr []}
            \<longrightarrow> \<not> truthy (field data fld)) \<and>
         (\<not> truthy (field data ''fiat'') \<and> onSnapshot_next ok (Some data) st = Some st' \<longrightarrow>
            ledger_apply p k (userBalance st') a =
              ledger_apply p k \<lparr>fiat = Fin 0, coin = coin (userBalance st')\<rparr> a) \<and>
         (\<not> truthy (field data ''coin'') \<and> onSnapshot_next ok (Some data) st = Some st' \<longrightarrow>
            ledger_apply p k (userBalance st') a =
              ledger_apply p k \<lparr>fiat = fiat (userBalance st'), coin = Fin 0\<rparr> a)"
proof -
  have loaded: "onSnapshot_next ok (Some data) st = Some st' \<Longrightarrow>
      as_number (js_or (field data ''fiat'') (JNum (Fin 0))) = Some (fiat (userBalance st')) \<and>
      as_number (js_or (field data ''coin'') (JNum (Fin 0))) = Some (coin (userBalance st'))"
    using assms by (auto simp: onSnapshot_next_def split: option.splits)
  have fiat0: "\<not> truthy (field data ''fiat'') \<Longrightarrow>
      onSnapshot_next ok (Some data) st = Some st' \<Longrightarrow>
      userBalance st' = \<lparr>fiat = Fin 0, coin = coin (userBalance st')\<rparr>"
    using loaded falsy_load [of "field data ''fiat''"] by simp
  have coin0: "\<not> truthy (field data ''coin'') \<Longrightarrow>
      onSnapshot_next ok (Some data) st = Some st' \<Longrightarrow>
      userBalance st' = \<lparr>fiat = fiat (userBalance st'), coin = Fin 0\<rparr>"
    using loaded falsy_load [of "field data ''coin''"] by simp
  have falsy: "data fld = None \<or>
      field data fld \<in> {JUndefined, JNull, JBool False, JNum (Fin 0), JNum NaN, JStr []}
        \<longrightarrow> \<not> truthy (field data fld)"
    by (auto simp: field_def)
  have load_fiat: "\<not> truthy (field data ''fiat'') \<and>
      as_number (js_or (field data ''coin'') (JNum (Fin 0))) = Some c \<longrightarrow>
      onSnapshot_next ok (Some data) st =
        Some (st\<lparr>userBalance := \<lparr>fiat = Fin 0, coin = c\<rparr>, message := Text ''''\<rparr>)"
    using assms by (auto simp: onSnapshot_next_def falsy_load)
  have load_coin: "\<not> truthy (field data ''coin'') \<and>
      as_number (js_or (field data ''fiat'') (JNum (Fin 0))) = Some f \<longrightarrow>
      onSnapshot_next ok (Some data) st =
        Some (st\<lparr>userBalance := \<lparr>fiat = f, coin = Fin 0\<rparr>, message := Text ''''\<rparr>)"
    using assms by (auto simp: onSnapshot_next_def falsy_load)
  from fiat0 have trade_fiat:
    "\<not> truthy (field data ''fiat'') \<and> onSnapshot_next ok (Some data) st = Some st' \<longrightarrow>
       ledger_apply p k (userBalance st') a =
         ledger_apply p k \<lparr>fiat = Fin 0, coin = coin (userBalance st')\<rparr> a"
    by auto
  from coin0 have trade_coin:
    "\<not> truthy (field data ''coin'') \<and> onSnapshot_next ok (Some data) st = Some st' \<longrightarrow>
       ledger_apply p k (userBalance st') a =
         ledger_apply p k \<lparr>fiat = fiat (userBalance st'), coin = Fin 0\<rparr> a"
    by auto
  from load_fiat load_coin falsy trade_fiat trade_coin show ?thesis
    by blast
qed

text \<open>A stored document whose fiat is \<^verbatim>\<open>NaN\<close> and whose coin is 0.25.\<close>

theorem snapshot_falsy_field_loads_zero_witness:
  "db ready_session \<and> userId ready_session = Some ''u1'' \<and> ''u1'' \<noteq> [] \<and>
   isAuthReady ready_session \<and>
   \<not> truthy (field [''fiat'' \<mapsto> JNum NaN, ''coin'' \<mapsto> JNum (Fin (1 / 4))] ''fiat'') \<and>
   onSnapshot_next True (Some [''fiat'' \<mapsto> JNum NaN, ''coin'' \<mapsto> JNum (Fin (1 / 4))])
       ready_session =
     Some (ready_session\<lparr>userBalance := \<lparr>fiat = Fin 0, coin = Fin (1 / 4)\<rparr>,
                         message := Text ''''\<rparr>)"
proof -
  have h1: "db ready_session"
    by (simp add: ready_session_def)
  have h2: "userId ready_session = Some ''u1''"
    by (simp add: ready_session_def)
  have h3: "''u1'' \<noteq> []"
    by simp
  have h4: "isAuthReady ready_session"
    by (simp add: ready_session_def)
  have h5: "\<not> truthy (field [''fiat'' \<mapsto> JNum NaN, ''coin'' \<mapsto> JNum (Fin (1 / 4))] ''fiat'')"
    by (simp add: field_def)
  have h6: "as_number (js_or (field [''fiat'' \<mapsto> JNum NaN, ''coin'' \<mapsto> JNum (Fin (1 / 4))] ''coin'')
              (JNum (Fin 0))) = Some (Fin (1 / 4))"
    by (simp add: field_def js_or_def)
  from snapshot_falsy_field_loads_zero [OF h1 h2 h3 h4,
      where data = "[''fiat'' \<mapsto> JNum NaN, ''coin'' \<mapsto> JNum (Fin (1 / 4))]"
        and c = "Fin (1 / 4)" and ok = True, THEN conjunct1] h5 h6
  have "onSnapshot_next True (Some [''fiat'' \<mapsto> JNum NaN, ''coin'' \<mapsto> JNum (Fin (1 / 4))])
          ready_session =
        Some (ready_session\<lparr>userBalance := \<lparr>fiat = Fin 0, coin = Fin (1 / 4)\<rparr>,
                            message := Text ''''\<rparr>)"
    by blast
  with h1 h2 h3 h4 h5 show ?thesis
    by blast
qed

end
